theory Spec2Isabelle
  imports
    Complex_Main
    "HOL-Library.Word"
    "HOL-Library.Multiset"
    "HOL-Library.Char_ord"
    "HOL-Library.List_Lexorder"
    "HOL-Library.Product_Lexorder"
begin

section \<open>Data model: pandas tables as the report functions of app.py see them\<close>

text \<open>
  The program is a script over pandas data frames. A data frame is an ordered list of
  named columns; every column has a dtype. The dtypes that the data model of the program
  uses are modelled:
  \<^item> \<open>Int64\<close>: a column read from cells that are all integers (dtype int64); sums and
    products wrap around modulo \<open>2 ^ 64\<close>;
  \<^item> \<open>Float64\<close>: a numeric column with decimals or gaps (dtype float64); a gap is \<open>NaN\<close>;
  \<^item> \<open>Object\<close>: a column of strings; \<open>None\<close> is a gap (pandas stores NaN there);
  \<^item> \<open>Datetime64\<close>: the result of \<open>pd.to_datetime(..., errors="coerce")\<close>; \<open>None\<close> is NaT.

  Floating point numbers are modelled as exact reals extended by the IEEE special values
  (both infinities and not-a-number). Rounding, overflow and the sign of zero are not
  modelled; the one result of the program that is a quotient of sums of squares, the
  correlation, is for that reason a parameter of the model.
\<close>

datatype fval = Fin real | PInf | NInf | NaN

datatype timestamp = Timestamp (year: nat) (month: nat) (day: nat)

datatype column =
    Int64 "64 word list"
  | Float64 "fval list"
  | Object "string option list"
  | Datetime64 "timestamp option list"

type_synonym dataframe = "(string \<times> column) list"

text \<open>
  Exceptions of the Python code are values. \<open>KeyError\<close> carries the column names that the
  lookup reports as absent. \<open>TypeError\<close> is what the mean of a frame raises on a column of
  strings. \<open>Unsupported\<close> stands for any other operation applied to a column of a dtype
  outside the data model of the program (dividing strings, grouping by numbers): what
  pandas does there is not modelled.
\<close>

datatype py_error = KeyError "string list" | AttributeError | TypeError | Unsupported

definition bindE :: "py_error + 'a \<Rightarrow> ('a \<Rightarrow> py_error + 'b) \<Rightarrow> py_error + 'b" where
  "bindE m f = (case m of Inl e \<Rightarrow> Inl e | Inr x \<Rightarrow> f x)"

subsection \<open>Floating point arithmetic, idealised\<close>

fun fadd :: "fval \<Rightarrow> fval \<Rightarrow> fval" where
  "fadd NaN _ = NaN"
| "fadd _ NaN = NaN"
| "fadd (Fin a) (Fin b) = Fin (a + b)"
| "fadd PInf NInf = NaN"
| "fadd NInf PInf = NaN"
| "fadd PInf _ = PInf"
| "fadd _ PInf = PInf"
| "fadd NInf _ = NInf"
| "fadd _ NInf = NInf"

definition fsign :: "fval \<Rightarrow> int" where
  "fsign x = (case x of Fin a \<Rightarrow> (if a < 0 then -1 else if a = 0 then 0 else 1)
                      | PInf \<Rightarrow> 1 | NInf \<Rightarrow> -1 | NaN \<Rightarrow> 0)"

definition inf_of_sign :: "int \<Rightarrow> fval" where
  "inf_of_sign s = (if s < 0 then NInf else if s = 0 then NaN else PInf)"

fun fmul :: "fval \<Rightarrow> fval \<Rightarrow> fval" where
  "fmul NaN _ = NaN"
| "fmul _ NaN = NaN"
| "fmul (Fin a) (Fin b) = Fin (a * b)"
| "fmul x y = inf_of_sign (fsign x * fsign y)"

text \<open>
  Division as numpy does it on float64 arrays: no exception, a zero divisor gives an
  infinity of the sign of the dividend, and \<open>0 / 0\<close> gives not-a-number.
\<close>

fun fdiv :: "fval \<Rightarrow> fval \<Rightarrow> fval" where
  "fdiv NaN _ = NaN"
| "fdiv _ NaN = NaN"
| "fdiv (Fin a) (Fin b) = (if b = 0 then inf_of_sign (fsign (Fin a)) else Fin (a / b))"
| "fdiv (Fin a) _ = Fin 0"
| "fdiv x (Fin b) = (if b < 0 then inf_of_sign (- fsign x) else x)"
| "fdiv _ _ = NaN"

instantiation fval :: comm_monoid_add
begin

definition zero_fval :: fval where "zero_fval = Fin 0"

definition plus_fval :: "fval \<Rightarrow> fval \<Rightarrow> fval" where "plus_fval = fadd"

instance
proof
  fix a b c :: fval
  show "a + b + c = a + (b + c)"
    unfolding plus_fval_def by (cases a; cases b; cases c) simp_all
  show "a + b = b + a"
    unfolding plus_fval_def by (cases a; cases b) simp_all
  show "0 + a = a"
    unfolding plus_fval_def zero_fval_def by (cases a) simp_all
qed

end

definition of_int64 :: "64 word \<Rightarrow> fval" where
  "of_int64 w = Fin (real_of_int (sint w))"

text \<open>
  Reductions skip missing values (\<open>skipna=True\<close>). The sum of no value is zero, the mean of
  no value is not-a-number.
\<close>

definition notna :: "fval list \<Rightarrow> fval list" where
  "notna xs = filter (\<lambda>x. x \<noteq> NaN) xs"

definition nansum :: "fval list \<Rightarrow> fval" where
  "nansum xs = sum_list (notna xs)"

definition nanmean :: "fval list \<Rightarrow> fval" where
  "nanmean xs = (if notna xs = [] then NaN
                 else fdiv (sum_list (notna xs)) (Fin (real (length (notna xs)))))"

definition as_float :: "column \<Rightarrow> py_error + fval list" where
  "as_float c = (case c of Int64 ws \<Rightarrow> Inr (map of_int64 ws)
                         | Float64 fs \<Rightarrow> Inr fs
                         | _ \<Rightarrow> Inl Unsupported)"

definition as_labels :: "column \<Rightarrow> py_error + string option list" where
  "as_labels c = (case c of Object ls \<Rightarrow> Inr ls | _ \<Rightarrow> Inl Unsupported)"

subsection \<open>Column access\<close>

text \<open>\<open>df[c]\<close>: the column named \<open>c\<close>, or \<open>KeyError\<close>.\<close>

definition getitem :: "dataframe \<Rightarrow> string \<Rightarrow> py_error + column" where
  "getitem df c = (case map_of df c of None \<Rightarrow> Inl (KeyError [c]) | Some col \<Rightarrow> Inr col)"

text \<open>
  \<open>df[[c1, ..., cn]]\<close>: the sub-frame of these columns in this order; the \<open>KeyError\<close> lists
  every absent name.
\<close>

definition getitems :: "dataframe \<Rightarrow> string list \<Rightarrow> py_error + dataframe" where
  "getitems df cs =
     (let absent = filter (\<lambda>c. map_of df c = None) cs
      in if absent = [] then Inr (List.map_filter (\<lambda>c. map_option (Pair c) (map_of df c)) cs)
         else Inl (KeyError absent))"

text \<open>
  \<open>df[c] = col\<close>: replaces the column of that name where it stands, or appends a new
  column after the last one.
\<close>

fun setitem :: "dataframe \<Rightarrow> string \<Rightarrow> column \<Rightarrow> dataframe" where
  "setitem [] c col = [(c, col)]"
| "setitem ((n, old) # df) c col =
     (if n = c then (c, col) # df else (n, old) # setitem df c col)"

definition columns :: "dataframe \<Rightarrow> string list" where
  "columns df = map fst df"

definition col_length :: "column \<Rightarrow> nat" where
  "col_length c = (case c of Int64 xs \<Rightarrow> length xs | Float64 xs \<Rightarrow> length xs
                           | Object xs \<Rightarrow> length xs | Datetime64 xs \<Rightarrow> length xs)"

text \<open>The invariant of every pandas frame: distinct column names, columns of one length.\<close>

definition wf_frame :: "dataframe \<Rightarrow> bool" where
  "wf_frame df \<longleftrightarrow> distinct (columns df) \<and>
     (\<forall>c \<in> set df. \<forall>d \<in> set df. col_length (snd c) = col_length (snd d))"

subsection \<open>Grouping\<close>

text \<open>
  \<open>groupby\<close> with its defaults (\<open>sort=True\<close>, \<open>dropna=True\<close>): the groups are the distinct keys
  that are present, in ascending order; a row whose key is missing belongs to no group.
\<close>

definition group_keys :: "('k :: linorder) option list \<Rightarrow> 'k list" where
  "group_keys ks = sort (remdups (List.map_filter (\<lambda>k. k) ks))"

definition group_rows :: "'k option list \<Rightarrow> 'v list \<Rightarrow> 'k \<Rightarrow> 'v list" where
  "group_rows ks vs k = map snd (filter (\<lambda>r. fst r = Some k) (zip ks vs))"

definition groupby_sum :: "('k :: linorder) option list \<Rightarrow> column \<Rightarrow> py_error + column" where
  "groupby_sum ks c =
     (case c of
        Int64 ws \<Rightarrow> Inr (Int64 (map (\<lambda>k. sum_list (group_rows ks ws k)) (group_keys ks)))
      | Float64 fs \<Rightarrow> Inr (Float64 (map (\<lambda>k. nansum (group_rows ks fs k)) (group_keys ks)))
      | _ \<Rightarrow> Inl Unsupported)"

definition groupby_mean :: "('k :: linorder) option list \<Rightarrow> column \<Rightarrow> py_error + column" where
  "groupby_mean ks c =
     bindE (as_float c) (\<lambda>fs.
       Inr (Float64 (map (\<lambda>k. nanmean (group_rows ks fs k)) (group_keys ks))))"

section \<open>The report functions\<close>

text \<open>
  Each function is given as the table it computes from the table it reads
  (\<open>UnitsByProduct\<close>, ...), and as the Python function of that name over the store of
  objects, which says what the call does to the frame it is handed.
\<close>

text \<open>\<open>df.groupby("Product Type")["Units Produced"].sum().reset_index()\<close>\<close>

definition UnitsByProduct :: "dataframe \<Rightarrow> py_error + dataframe" where
  "UnitsByProduct df =
     bindE (getitem df ''Product Type'') (\<lambda>kc.
     bindE (getitem df ''Units Produced'') (\<lambda>vc.
     bindE (as_labels kc) (\<lambda>ks.
     bindE (groupby_sum ks vc) (\<lambda>totals.
       Inr [(''Product Type'', Object (map Some (group_keys ks))),
            (''Units Produced'', totals)]))))"

text \<open>\<open>df.groupby("Shift")["Defects"].mean().reset_index()\<close>\<close>

definition AvgDefectsByShift :: "dataframe \<Rightarrow> py_error + dataframe" where
  "AvgDefectsByShift df =
     bindE (getitem df ''Shift'') (\<lambda>kc.
     bindE (getitem df ''Defects'') (\<lambda>vc.
     bindE (as_labels kc) (\<lambda>ks.
     bindE (groupby_mean ks vc) (\<lambda>means.
       Inr [(''Shift'', Object (map Some (group_keys ks))),
            (''Defects'', means)]))))"

text \<open>
  \<open>df["Date"].dt.to_period("M").astype(str)\<close>: the year with four digits, a hyphen and the
  month with two digits. What a missing date becomes depends on the version of pandas,
  which the program does not fix: pandas 2 gives the string \<open>NaT\<close>, pandas 3 keeps the value
  missing. The \<open>.dt\<close> accessor exists on a datetime column only.
\<close>

datatype missing_str = As_NaT | Stays_missing

definition digit :: "nat \<Rightarrow> char" where
  "digit n = char_of (48 + n mod 10)"

fun zero_pad :: "nat \<Rightarrow> nat \<Rightarrow> string" where
  "zero_pad 0 n = []"
| "zero_pad (Suc k) n = zero_pad k (n div 10) @ [digit n]"

definition month_label :: "nat \<times> nat \<Rightarrow> string" where
  "month_label ym = zero_pad 4 (fst ym) @ ''-'' @ zero_pad 2 (snd ym)"

definition period_str :: "missing_str \<Rightarrow> timestamp option \<Rightarrow> string option" where
  "period_str v d =
     (case d of Some t \<Rightarrow> Some (month_label (year t, month t))
              | None \<Rightarrow> (case v of As_NaT \<Rightarrow> Some ''NaT'' | Stays_missing \<Rightarrow> None))"

definition dt_to_period_M_str :: "missing_str \<Rightarrow> column \<Rightarrow> py_error + column" where
  "dt_to_period_M_str v c =
     (case c of Datetime64 ds \<Rightarrow> Inr (Object (map (period_str v) ds))
              | _ \<Rightarrow> Inl AttributeError)"

text \<open>
  \<open>df["Month"] = ...; return df.groupby("Month")["Units Produced"].sum().reset_index()\<close>.
  The assignment changes the frame of the caller: the first component is that frame
  after the call.
\<close>

definition MonthlyProduction ::
  "missing_str \<Rightarrow> dataframe \<Rightarrow> dataframe \<times> (py_error + dataframe)" where
  "MonthlyProduction v df =
     (case bindE (getitem df ''Date'') (dt_to_period_M_str v) of
        Inl e \<Rightarrow> (df, Inl e)
      | Inr months \<Rightarrow>
          (let df' = setitem df ''Month'' months
           in (df',
               bindE (getitem df' ''Month'') (\<lambda>kc.
               bindE (getitem df' ''Units Produced'') (\<lambda>vc.
               bindE (as_labels kc) (\<lambda>ks.
               bindE (groupby_sum ks vc) (\<lambda>totals.
                 Inr [(''Month'', Object (map Some (group_keys ks))),
                      (''Units Produced'', totals)])))))))"

text \<open>
  \<open>df[cols].mean().reset_index().rename(columns={0: "Average Cost"})\<close> with \<open>cols\<close> the cost
  columns that the frame has. The mean of a frame raises \<open>TypeError\<close> when a column holds
  strings.
\<close>

fun frame_mean :: "dataframe \<Rightarrow> py_error + fval list" where
  "frame_mean [] = Inr []"
| "frame_mean ((n, c) # df) =
     (case c of
        Object _ \<Rightarrow> Inl TypeError
      | _ \<Rightarrow> bindE (as_float c) (\<lambda>fs.
             bindE (frame_mean df) (\<lambda>ms. Inr (nanmean fs # ms))))"

definition AvgCostSummary :: "dataframe \<Rightarrow> py_error + dataframe" where
  "AvgCostSummary df =
     (let cols = (if ''Material Cost Per Unit'' \<in> set (columns df)
                  then [''Material Cost Per Unit''] else [])
               @ (if ''Labour Cost Per Hour'' \<in> set (columns df)
                  then [''Labour Cost Per Hour''] else [])
      in bindE (getitems df cols) (\<lambda>sub.
         bindE (frame_mean sub) (\<lambda>ms.
           Inr [(''index'', Object (map Some (columns sub))),
                (''Average Cost'', Float64 ms)])))"

text \<open>
  \<open>df[[...]].corr().reset_index()\<close>. pandas computes the Pearson correlation of each pair
  of columns once, over the rows where both values are finite, and writes it at both
  positions of the matrix. The value is not-a-number when there is no such row, and when
  the values of one of the two columns in these rows are all equal: the sum of squared
  deviations of that column is zero then, and so is the divisor. In every other case the
  value is the quotient that the float64 arithmetic of pandas gives. Floating point
  arithmetic is not modelled, so that quotient is a parameter: a function of the paired
  values.
\<close>

definition finite_pairs :: "fval list \<Rightarrow> fval list \<Rightarrow> (real \<times> real) list" where
  "finite_pairs xs ys =
     List.map_filter (\<lambda>p. case p of (Fin a, Fin b) \<Rightarrow> Some (a, b) | _ \<Rightarrow> None) (zip xs ys)"

definition constant_values :: "real list \<Rightarrow> bool" where
  "constant_values vs \<longleftrightarrow> length (remdups vs) \<le> 1"

definition pearson :: "((real \<times> real) list \<Rightarrow> fval) \<Rightarrow> fval list \<Rightarrow> fval list \<Rightarrow> fval" where
  "pearson qf xs ys =
     (let ps = finite_pairs xs ys
      in if ps = [] then NaN
         else if constant_values (map fst ps) \<or> constant_values (map snd ps) then NaN
         else qf ps)"

fun float_columns :: "dataframe \<Rightarrow> py_error + (string \<times> fval list) list" where
  "float_columns [] = Inr []"
| "float_columns ((n, c) # df) =
     bindE (as_float c) (\<lambda>fs.
     bindE (float_columns df) (\<lambda>rest. Inr ((n, fs) # rest)))"

definition corr :: "((real \<times> real) list \<Rightarrow> fval) \<Rightarrow> dataframe \<Rightarrow> py_error + dataframe" where
  "corr qf df =
     bindE (float_columns df) (\<lambda>cs.
       Inr (map (\<lambda>j. (fst (cs ! j),
                       Float64 (map (\<lambda>i. pearson qf (snd (cs ! max i j)) (snd (cs ! min i j)))
                                    [0..<length cs])))
                [0..<length cs]))"

definition EnergyVsProduction ::
  "((real \<times> real) list \<Rightarrow> fval) \<Rightarrow> dataframe \<Rightarrow> py_error + dataframe" where
  "EnergyVsProduction qf df =
     bindE (getitems df [''Energy Consumption kWh'', ''Units Produced'']) (\<lambda>sub.
     bindE (corr qf sub) (\<lambda>m.
       Inr ((''index'', Object (map Some (columns sub))) # m)))"

text \<open>Arithmetic on whole columns: \<open>/\<close> is true division and gives floats.\<close>

definition col_div :: "column \<Rightarrow> column \<Rightarrow> py_error + column" where
  "col_div a b =
     bindE (as_float a) (\<lambda>xs.
     bindE (as_float b) (\<lambda>ys.
       Inr (Float64 (map (\<lambda>p. fdiv (fst p) (snd p)) (zip xs ys)))))"

definition col_mul :: "column \<Rightarrow> column \<Rightarrow> py_error + column" where
  "col_mul a b =
     (case (a, b) of
        (Int64 xs, Int64 ys) \<Rightarrow> Inr (Int64 (map (\<lambda>p. fst p * snd p) (zip xs ys)))
      | _ \<Rightarrow>
        bindE (as_float a) (\<lambda>xs.
        bindE (as_float b) (\<lambda>ys.
          Inr (Float64 (map (\<lambda>p. fmul (fst p) (snd p)) (zip xs ys))))))"

definition col_scale :: "column \<Rightarrow> real \<Rightarrow> py_error + column" where
  "col_scale a k = bindE (as_float a) (\<lambda>xs. Inr (Float64 (map (\<lambda>x. fmul x (Fin k)) xs)))"

text \<open>
  \<open>prod = ...sum(); defects = ...sum(); result = (defects / prod * 100).reset_index()\<close>.
  Both series come from the same grouping, so they have the same index and the division is
  row by row.
\<close>

definition DefectRateByProduct :: "dataframe \<Rightarrow> py_error + dataframe" where
  "DefectRateByProduct df =
     bindE (getitem df ''Product Type'') (\<lambda>kc.
     bindE (getitem df ''Units Produced'') (\<lambda>uc.
     bindE (as_labels kc) (\<lambda>ks.
     bindE (groupby_sum ks uc) (\<lambda>prod.
     bindE (getitem df ''Defects'') (\<lambda>dc.
     bindE (groupby_sum ks dc) (\<lambda>defects.
     bindE (col_div defects prod) (\<lambda>ratio.
     bindE (col_scale ratio 100) (\<lambda>rate.
       Inr [(''Product Type'', Object (map Some (group_keys ks))),
            (''Defect Rate (%)'', rate)]))))))))"

text \<open>
  \<open>df = df.copy(); df["Productivity"] = ...; return df[[...]].groupby([...]).mean()\<close>.
  The first component is the local copy after the assignment; the frame of the caller is
  not touched. A row belongs to a group when both of its keys are present.
\<close>

definition key_pairs :: "'a option list \<Rightarrow> 'b option list \<Rightarrow> ('a \<times> 'b) option list" where
  "key_pairs xs ys =
     map (\<lambda>p. case p of (Some a, Some b) \<Rightarrow> Some (a, b) | _ \<Rightarrow> None) (zip xs ys)"

definition productivity_column :: "dataframe \<Rightarrow> py_error + column" where
  "productivity_column df =
     bindE (getitem df ''Units Produced'') (\<lambda>u.
     bindE (getitem df ''Operator Count'') (\<lambda>oc.
     bindE (getitem df ''Production Time Hours'') (\<lambda>h.
     bindE (col_mul oc h) (\<lambda>d. col_div u d))))"

definition ProductivityPerOperator :: "dataframe \<Rightarrow> dataframe \<times> (py_error + dataframe)" where
  "ProductivityPerOperator df =
     (case productivity_column df of
        Inl e \<Rightarrow> (df, Inl e)
      | Inr p \<Rightarrow>
          (let df' = setitem df ''Productivity'' p
           in (df',
               bindE (getitems df' [''Product Type'', ''Shift'', ''Productivity'']) (\<lambda>sub.
               bindE (getitem sub ''Product Type'') (\<lambda>c1.
               bindE (getitem sub ''Shift'') (\<lambda>c2.
               bindE (getitem sub ''Productivity'') (\<lambda>vc.
               bindE (as_labels c1) (\<lambda>k1.
               bindE (as_labels c2) (\<lambda>k2.
               bindE (groupby_mean (key_pairs k1 k2) vc) (\<lambda>means.
                 Inr [(''Product Type'', Object (map (\<lambda>k. Some (fst k)) (group_keys (key_pairs k1 k2)))),
                      (''Shift'', Object (map (\<lambda>k. Some (snd k)) (group_keys (key_pairs k1 k2)))),
                      (''Productivity'', means)]))))))))))"

section \<open>The functions of app.py over the store of objects\<close>

text \<open>
  A Python variable holds a reference to a frame. The store maps references to frames;
  \<open>fresh\<close> is the next unused reference, which \<open>df.copy()\<close> takes. A call returns the store
  after the call and the frame it computed, or the exception it raised.
\<close>

record store =
  objs :: "nat \<Rightarrow> dataframe"
  fresh :: nat

definition generate_units_by_product :: "store \<Rightarrow> nat \<Rightarrow> store \<times> (py_error + dataframe)" where
  "generate_units_by_product st df = (st, UnitsByProduct (objs st df))"

definition generate_avg_defects_by_shift :: "store \<Rightarrow> nat \<Rightarrow> store \<times> (py_error + dataframe)" where
  "generate_avg_defects_by_shift st df = (st, AvgDefectsByShift (objs st df))"

definition generate_monthly_production ::
  "missing_str \<Rightarrow> store \<Rightarrow> nat \<Rightarrow> store \<times> (py_error + dataframe)" where
  "generate_monthly_production v st df =
     (let r = MonthlyProduction v (objs st df)
      in (st\<lparr>objs := (objs st)(df := fst r)\<rparr>, snd r))"

definition generate_avg_cost_summary :: "store \<Rightarrow> nat \<Rightarrow> store \<times> (py_error + dataframe)" where
  "generate_avg_cost_summary st df = (st, AvgCostSummary (objs st df))"

definition generate_energy_vs_production ::
  "((real \<times> real) list \<Rightarrow> fval) \<Rightarrow> store \<Rightarrow> nat \<Rightarrow> store \<times> (py_error + dataframe)" where
  "generate_energy_vs_production qf st df = (st, EnergyVsProduction qf (objs st df))"

definition generate_defect_rate_by_product :: "store \<Rightarrow> nat \<Rightarrow> store \<times> (py_error + dataframe)" where
  "generate_defect_rate_by_product st df = (st, DefectRateByProduct (objs st df))"

definition generate_productivity_per_operator :: "store \<Rightarrow> nat \<Rightarrow> store \<times> (py_error + dataframe)" where
  "generate_productivity_per_operator st df =
     (let copy = fresh st;
          r = ProductivityPerOperator (objs st df)
      in (st\<lparr>objs := (objs st)(copy := fst r), fresh := Suc copy\<rparr>, snd r))"

subsection \<open>The report pass and the export\<close>

text \<open>
  The main block runs the seven functions one after the other, with no exception handler,
  and then writes the seven frames to one workbook that it hands to the download button.
  The calls that draw tables and charts are left out. What the program takes from pandas
  without fixing it is a parameter of the pass: \<open>pd.to_datetime\<close>, a function from the
  column read from the file to the dates it parses, with \<open>None\<close> where \<open>errors="coerce"\<close>
  gives NaT; what \<open>astype(str)\<close> makes of a missing date; the quotient of the correlation.
\<close>

record pandas =
  to_datetime :: "column \<Rightarrow> timestamp option list"
  astype_str :: missing_str
  corr_quotient :: "(real \<times> real) list \<Rightarrow> fval"

record artifact =
  sheets :: "(string \<times> dataframe) list"
  file_name :: string
  mime :: string

definition bindS ::
  "store \<times> (py_error + 'a) \<Rightarrow> (store \<Rightarrow> 'a \<Rightarrow> store \<times> (py_error + 'b)) \<Rightarrow> store \<times> (py_error + 'b)" where
  "bindS m f = (case snd m of Inl e \<Rightarrow> (fst m, Inl e) | Inr x \<Rightarrow> f (fst m) x)"

text \<open>\<open>frame.to_excel(writer, sheet_name=name, index=False)\<close>: one more sheet, after the others.\<close>

definition to_excel ::
  "(string \<times> dataframe) list \<Rightarrow> dataframe \<Rightarrow> string \<Rightarrow> (string \<times> dataframe) list" where
  "to_excel writer frame sheet_name = writer @ [(sheet_name, frame)]"

definition export_report ::
  "dataframe \<Rightarrow> dataframe \<Rightarrow> dataframe \<Rightarrow> dataframe \<Rightarrow> dataframe \<Rightarrow> dataframe \<Rightarrow> dataframe
     \<Rightarrow> artifact" where
  "export_report units defects monthly cost energy defect_rate productivity =
     (let w0 = [];
          w1 = to_excel w0 units ''Units by Product'';
          w2 = to_excel w1 defects ''Defects by Shift'';
          w3 = to_excel w2 monthly ''Monthly Production'';
          w4 = to_excel w3 cost ''Cost Summary'';
          w5 = to_excel w4 energy ''Energy vs Prod'';
          w6 = to_excel w5 defect_rate ''Defect Rate (%)'';
          w7 = to_excel w6 productivity ''Productivity''
      in \<lparr>sheets = w7,
          file_name = ''agentic_report.xlsx'',
          mime = ''application/vnd.openxmlformats-officedocument.spreadsheetml.sheet''\<rparr>)"

definition main :: "pandas \<Rightarrow> store \<Rightarrow> nat \<Rightarrow> store \<times> (py_error + artifact)" where
  "main pd st df =
     (case getitem (objs st df) ''Date'' of
        Inl e \<Rightarrow> (st, Inl e)
      | Inr raw \<Rightarrow>
          (let st0 = st\<lparr>objs := (objs st)
                        (df := setitem (objs st df) ''Date'' (Datetime64 (to_datetime pd raw)))\<rparr>
           in bindS (generate_units_by_product st0 df) (\<lambda>st1 units.
              bindS (generate_avg_defects_by_shift st1 df) (\<lambda>st2 defects.
              bindS (generate_monthly_production (astype_str pd) st2 df) (\<lambda>st3 monthly.
              bindS (generate_avg_cost_summary st3 df) (\<lambda>st4 cost.
              bindS (generate_energy_vs_production (corr_quotient pd) st4 df) (\<lambda>st5 energy.
              bindS (generate_defect_rate_by_product st5 df) (\<lambda>st6 defect_rate.
              bindS (generate_productivity_per_operator st6 df) (\<lambda>st7 productivity.
                (st7, Inr (export_report units defects monthly cost energy
                                         defect_rate productivity)))))))))))"

section \<open>Example tables\<close>

text \<open>
  The scenario of the specification: product A with units 10 and 20 and defects 1 and 2,
  product B with units 5 and defects 1.
\<close>

definition scenario :: dataframe where
  "scenario =
     [(''Product Type'', Object [Some ''A'', Some ''A'', Some ''B'']),
      (''Units Produced'', Int64 [10, 20, 5]),
      (''Defects'', Int64 [1, 2, 1])]"

text \<open>A table in which the second row has no product type (an empty cell of the file).\<close>

definition gap_in_product :: dataframe where
  "gap_in_product =
     [(''Product Type'', Object [Some ''A'', None]),
      (''Units Produced'', Int64 [10, 5])]"

definition store_of :: "dataframe \<Rightarrow> store" where
  "store_of t = \<lparr>objs = (\<lambda>_. []) (0 := t), fresh = 1\<rparr>"

text \<open>Two products without any unit produced, one without and one with a defect.\<close>

definition zero_units :: dataframe where
  "zero_units =
     [(''Product Type'', Object [Some ''X'', Some ''Y'']),
      (''Units Produced'', Int64 [0, 0]),
      (''Defects'', Int64 [0, 1])]"

text \<open>Four rows on two shifts; the third row has no shift.\<close>

definition shifts :: dataframe where
  "shifts =
     [(''Shift'', Object [Some ''Night'', Some ''Day'', None, Some ''Night'']),
      (''Defects'', Int64 [1, 4, 7, 2])]"








text \<open>A table that comes with a column named Month of its own.\<close>

definition month_column :: dataframe where
  "month_column =
     [(''Date'', Datetime64 [Some (Timestamp 2024 3 15)]),
      (''Month'', Object [Some ''March'']),
      (''Units Produced'', Int64 [10])]"


text \<open>
  The columns that the report functions look up without asking whether the table has
  them.
\<close>

definition required_columns :: "string list" where
  "required_columns =
     [''Date'', ''Product Type'', ''Shift'', ''Units Produced'', ''Defects'',
      ''Operator Count'', ''Production Time Hours'', ''Energy Consumption kWh'']"

text \<open>A table with every required column, and the same table without the column Shift.\<close>

definition full_table :: dataframe where
  "full_table =
     [(''Date'', Datetime64 [Some (Timestamp 2024 1 5), None]),
      (''Product Type'', Object [Some ''A'', Some ''B'']),
      (''Shift'', Object [Some ''Day'', Some ''Night'']),
      (''Units Produced'', Int64 [10, 20]),
      (''Defects'', Int64 [1, 2]),
      (''Operator Count'', Int64 [2, 4]),
      (''Production Time Hours'', Float64 [Fin 5, Fin 5]),
      (''Energy Consumption kWh'', Float64 [Fin 5, Fin 7])]"

definition no_shift :: dataframe where
  "no_shift = filter (\<lambda>c. fst c \<noteq> ''Shift'') full_table"

text \<open>
  Instances of the parameters for the examples: a date parser that keeps the dates of a
  column that is parsed already and finds no date in any other column, and the
  correlation quotient of exact arithmetic.
\<close>

definition keep_dates :: "column \<Rightarrow> timestamp option list" where
  "keep_dates c = (case c of Datetime64 ds \<Rightarrow> ds | _ \<Rightarrow> replicate (col_length c) None)"

definition exact_quotient :: "(real \<times> real) list \<Rightarrow> fval" where
  "exact_quotient ps =
     (let n = real (length ps);
          mx = sum_list (map fst ps) / n; my = sum_list (map snd ps) / n;
          ssqdx = (\<Sum>p\<leftarrow>ps. (fst p - mx) * (fst p - mx));
          ssqdy = (\<Sum>p\<leftarrow>ps. (snd p - my) * (snd p - my));
          covxy = (\<Sum>p\<leftarrow>ps. (fst p - mx) * (snd p - my))
      in Fin (covxy / sqrt (ssqdx * ssqdy)))"

definition pandas2 :: pandas where
  "pandas2 = \<lparr>to_datetime = keep_dates, astype_str = As_NaT, corr_quotient = exact_quotient\<rparr>"

definition pandas3 :: pandas where
  "pandas3 = \<lparr>to_datetime = keep_dates, astype_str = Stays_missing,
              corr_quotient = exact_quotient\<rparr>"

text \<open>The table that the report functions see after the main block has parsed the dates.\<close>

definition after_date :: "pandas \<Rightarrow> dataframe \<Rightarrow> column \<Rightarrow> dataframe" where
  "after_date pd t raw = setitem t ''Date'' (Datetime64 (to_datetime pd raw))"

section \<open>Grouping: general facts\<close>

lemma sum_list_single_key:
  fixes v :: "'a :: comm_monoid_add"
  assumes "distinct K"
  shows "(\<Sum>k\<leftarrow>K. if k = k0 then v else 0) = (if k0 \<in> set K then v else 0)"
  using assms by (induction K) auto

lemma group_sums_rows:
  fixes rows :: "('k option \<times> ('a :: comm_monoid_add)) list"
  assumes "distinct K" and "\<forall>k. Some k \<in> fst ` set rows \<longrightarrow> k \<in> set K"
  shows "(\<Sum>k\<leftarrow>K. sum_list (map snd (filter (\<lambda>r. fst r = Some k) rows)))
         = sum_list (map snd (filter (\<lambda>r. fst r \<noteq> None) rows))"
  using assms(2)
proof (induction rows)
  case Nil
  then show ?case by simp
next
  case (Cons r rows)
  obtain ko v where r: "r = (ko, v)" by (cases r)
  have IH: "(\<Sum>k\<leftarrow>K. sum_list (map snd (filter (\<lambda>r. fst r = Some k) rows)))
         = sum_list (map snd (filter (\<lambda>r. fst r \<noteq> None) rows))"
    using Cons by auto
  show ?case
  proof (cases ko)
    case None
    then show ?thesis using IH r by simp
  next
    case (Some k0)
    have mem: "k0 \<in> set K" using Cons.prems r Some by auto
    have "(\<Sum>k\<leftarrow>K. sum_list (map snd (filter (\<lambda>r. fst r = Some k) (r # rows))))
        = (\<Sum>k\<leftarrow>K. (if k = k0 then v else 0)
                  + sum_list (map snd (filter (\<lambda>r. fst r = Some k) rows)))"
      using r Some by (intro arg_cong[where f=sum_list] map_cong) auto
    also have "\<dots> = (\<Sum>k\<leftarrow>K. if k = k0 then v else 0)
                    + (\<Sum>k\<leftarrow>K. sum_list (map snd (filter (\<lambda>r. fst r = Some k) rows)))"
      by (simp add: sum_list_addf)
    also have "\<dots> = v + sum_list (map snd (filter (\<lambda>r. fst r \<noteq> None) rows))"
      using IH mem sum_list_single_key[OF assms(1), of k0 v] by simp
    finally show ?thesis using r Some by simp
  qed
qed

lemma set_group_keys: "set (group_keys ks) = {k. Some k \<in> set ks}"
  by (force simp: group_keys_def List.map_filter_def)

lemma distinct_group_keys: "distinct (group_keys ks)"
  by (simp add: group_keys_def)

lemma sorted_group_keys: "sorted (group_keys ks)"
  by (simp add: group_keys_def)

lemma group_sums_total:
  fixes vs :: "('a :: comm_monoid_add) list"
  shows "(\<Sum>k\<leftarrow>group_keys ks. sum_list (group_rows ks vs k))
         = sum_list (map snd (filter (\<lambda>r. fst r \<noteq> None) (zip ks vs)))"
  unfolding group_rows_def
  by (rule group_sums_rows) (auto simp: distinct_group_keys set_group_keys dest: set_zip_leftD)

lemma filter_present_all:
  assumes "None \<notin> set ks" and "length ks = length vs"
  shows "map snd (filter (\<lambda>r. fst r \<noteq> None) (zip ks vs)) = vs"
proof -
  have "fst r \<noteq> None" if "r \<in> set (zip ks vs)" for r
  proof -
    have "fst r \<in> set ks" using that set_zip_leftD[of "fst r" "snd r" ks vs] by simp
    with assms(1) show ?thesis by metis
  qed
  then have "filter (\<lambda>r. fst r \<noteq> None) (zip ks vs) = zip ks vs"
    by (simp add: filter_id_conv)
  then show ?thesis using assms(2) by simp
qed

lemmas eval_defs =
  bindE_def getitem_def as_labels_def as_float_def groupby_sum_def groupby_mean_def
  group_keys_def group_rows_def store_of_def

section \<open>Units by product\<close>

text \<open>
  C1, as stated: for every table with the columns Product Type and Units Produced, the
  per-product totals of \<open>generate_units_by_product\<close> add up to the sum of Units Produced
  over all rows. This fails on a table with a row whose product type is missing: grouping
  drops that row, so the totals add up to 10 while the column adds up to 15.
\<close>

theorem units_by_product_total_counterexample:
  "snd (generate_units_by_product (store_of gap_in_product) 0)
     = Inr [(''Product Type'', Object [Some ''A'']), (''Units Produced'', Int64 [10])]
   \<and> getitem gap_in_product ''Units Produced'' = Inr (Int64 [10, 5])
   \<and> sum_list [10 :: 64 word] \<noteq> sum_list [10, 5]"
  by (simp add: generate_units_by_product_def UnitsByProduct_def gap_in_product_def eval_defs)

text \<open>
  C1, amended: for every table with a string column Product Type and an integer column
  Units Produced, \<open>generate_units_by_product\<close> returns one row per distinct product type
  that is present, in ascending order, and the totals add up to the sum of Units Produced
  over the rows whose product type is present; when no product type is missing, that is
  the sum over all rows. On the scenario the result is A: 30, B: 5.
\<close>

theorem units_by_product_total_present:
  assumes "getitem (objs st df) ''Product Type'' = Inr (Object ks)"
      and "getitem (objs st df) ''Units Produced'' = Inr (Int64 us)"
  shows "(\<exists>totals.
           snd (generate_units_by_product st df)
             = Inr [(''Product Type'', Object (map Some (group_keys ks))),
                    (''Units Produced'', Int64 totals)]
         \<and> length totals = length (group_keys ks)
         \<and> sum_list totals = sum_list (map snd (filter (\<lambda>r. fst r \<noteq> None) (zip ks us)))
         \<and> (None \<notin> set ks \<and> length ks = length us \<longrightarrow> sum_list totals = sum_list us))
       \<and> snd (generate_units_by_product (store_of scenario) 0)
           = Inr [(''Product Type'', Object [Some ''A'', Some ''B'']),
                  (''Units Produced'', Int64 [30, 5])]"
proof -
  let ?totals = "map (\<lambda>k. sum_list (group_rows ks us k)) (group_keys ks)"
  have res: "snd (generate_units_by_product st df)
      = Inr [(''Product Type'', Object (map Some (group_keys ks))),
             (''Units Produced'', Int64 ?totals)]"
    using assms
    by (simp add: generate_units_by_product_def UnitsByProduct_def bindE_def as_labels_def
        groupby_sum_def)
  have tot: "sum_list ?totals = sum_list (map snd (filter (\<lambda>r. fst r \<noteq> None) (zip ks us)))"
    by (rule group_sums_total)
  have "None \<notin> set ks \<and> length ks = length us \<longrightarrow> sum_list ?totals = sum_list us"
    using tot filter_present_all[of ks us] by simp
  with res tot have general: "\<exists>totals.
           snd (generate_units_by_product st df)
             = Inr [(''Product Type'', Object (map Some (group_keys ks))),
                    (''Units Produced'', Int64 totals)]
         \<and> length totals = length (group_keys ks)
         \<and> sum_list totals = sum_list (map snd (filter (\<lambda>r. fst r \<noteq> None) (zip ks us)))
         \<and> (None \<notin> set ks \<and> length ks = length us \<longrightarrow> sum_list totals = sum_list us)"
    by (intro exI[of _ ?totals]) simp
  have "snd (generate_units_by_product (store_of scenario) 0)
           = Inr [(''Product Type'', Object [Some ''A'', Some ''B'']),
                  (''Units Produced'', Int64 [30, 5])]"
    by (simp add: generate_units_by_product_def UnitsByProduct_def scenario_def eval_defs)
  with general show ?thesis by blast
qed

theorem units_by_product_total_present_witness:
  "getitem (objs (store_of scenario) 0) ''Product Type''
     = Inr (Object [Some ''A'', Some ''A'', Some ''B''])
   \<and> getitem (objs (store_of scenario) 0) ''Units Produced'' = Inr (Int64 [10, 20, 5])
   \<and> None \<notin> set [Some ''A'', Some ''A'', Some ''B'']
   \<and> (\<exists>totals.
         snd (generate_units_by_product (store_of scenario) 0)
           = Inr [(''Product Type'', Object [Some ''A'', Some ''B'']),
                  (''Units Produced'', Int64 totals)]
       \<and> sum_list totals = sum_list [10, 20, 5 :: 64 word])"
proof -
  have a: "getitem (objs (store_of scenario) 0) ''Product Type''
             = Inr (Object [Some ''A'', Some ''A'', Some ''B''])"
    by (simp add: scenario_def getitem_def store_of_def)
  have b: "getitem (objs (store_of scenario) 0) ''Units Produced'' = Inr (Int64 [10, 20, 5])"
    by (simp add: scenario_def getitem_def store_of_def)
  have k: "group_keys [Some ''A'', Some ''A'', Some ''B''] = [''A'', ''B'']"
    by (simp add: group_keys_def)
  from units_by_product_total_present[OF a b] a b k show ?thesis
    by auto
qed

section \<open>Defect rate by product\<close>

lemma rate_cases:
  "fmul (fdiv (of_int64 d) (of_int64 u)) (Fin 100) =
     (if sint u \<noteq> 0 then Fin (real_of_int (sint d) / real_of_int (sint u) * 100)
      else if sint d = 0 then NaN else if 0 < sint d then PInf else NInf)"
  by (simp add: of_int64_def inf_of_sign_def fsign_def del: of_int_sint)

lemma defect_rate_result:
  assumes "getitem (objs st df) ''Product Type'' = Inr (Object ks)"
      and "getitem (objs st df) ''Units Produced'' = Inr (Int64 us)"
      and "getitem (objs st df) ''Defects'' = Inr (Int64 ds)"
  shows "snd (generate_defect_rate_by_product st df)
     = Inr [(''Product Type'', Object (map Some (group_keys ks))),
            (''Defect Rate (%)'',
             Float64 (map (\<lambda>k. fmul (fdiv (of_int64 (sum_list (group_rows ks ds k)))
                                          (of_int64 (sum_list (group_rows ks us k)))) (Fin 100))
                          (group_keys ks)))]"
  using assms
  by (simp add: generate_defect_rate_by_product_def DefectRateByProduct_def bindE_def
      as_labels_def groupby_sum_def col_div_def col_scale_def as_float_def zip_map_map
      zip_same_conv_map comp_def)

text \<open>
  C2, as stated: the rate of a product whose units add up to zero is a documented sentinel
  value. The code has no such value: it divides, and the division gives not-a-number for
  the product without a defect and plus infinity for the product with one, so two products
  without units get two different results.
\<close>

theorem defect_rate_sentinel_counterexample:
  "snd (generate_defect_rate_by_product (store_of zero_units) 0)
     = Inr [(''Product Type'', Object [Some ''X'', Some ''Y'']),
            (''Defect Rate (%)'', Float64 [NaN, PInf])]
   \<and> NaN \<noteq> PInf"
  by (simp add: generate_defect_rate_by_product_def DefectRateByProduct_def zero_units_def
      eval_defs col_div_def col_scale_def of_int64_def inf_of_sign_def fsign_def)

text \<open>
  C2, amended: for every table with a string column Product Type and integer columns Units
  Produced and Defects, \<open>generate_defect_rate_by_product\<close> raises nothing and returns, for
  every product type that is present, the sum of Defects divided by the sum of Units
  Produced, times 100. Where the units of a product add up to zero the rate is what the
  division gives: not-a-number when the defects add up to zero as well, plus infinity when
  they are positive, minus infinity when they are negative. On the scenario the rates are
  10 and 20.
\<close>

theorem defect_rate_by_product_rates:
  assumes "getitem (objs st df) ''Product Type'' = Inr (Object ks)"
      and "getitem (objs st df) ''Units Produced'' = Inr (Int64 us)"
      and "getitem (objs st df) ''Defects'' = Inr (Int64 ds)"
  shows "snd (generate_defect_rate_by_product st df)
           = Inr [(''Product Type'', Object (map Some (group_keys ks))),
                  (''Defect Rate (%)'',
                   Float64 (map (\<lambda>k.
                      let d = sint (sum_list (group_rows ks ds k));
                          u = sint (sum_list (group_rows ks us k))
                      in if u \<noteq> 0 then Fin (real_of_int d / real_of_int u * 100)
                         else if d = 0 then NaN else if 0 < d then PInf else NInf)
                    (group_keys ks)))]
       \<and> snd (generate_defect_rate_by_product (store_of scenario) 0)
           = Inr [(''Product Type'', Object [Some ''A'', Some ''B'']),
                  (''Defect Rate (%)'', Float64 [Fin 10, Fin 20])]"
proof -
  have "snd (generate_defect_rate_by_product (store_of scenario) 0)
           = Inr [(''Product Type'', Object [Some ''A'', Some ''B'']),
                  (''Defect Rate (%)'', Float64 [Fin 10, Fin 20])]"
    by (simp add: generate_defect_rate_by_product_def DefectRateByProduct_def scenario_def
        eval_defs col_div_def col_scale_def of_int64_def inf_of_sign_def fsign_def)
  then show ?thesis
    unfolding defect_rate_result[OF assms] rate_cases Let_def by simp
qed

theorem defect_rate_by_product_rates_witness:
  "getitem (objs (store_of zero_units) 0) ''Product Type'' = Inr (Object [Some ''X'', Some ''Y''])
   \<and> getitem (objs (store_of zero_units) 0) ''Units Produced'' = Inr (Int64 [0, 0])
   \<and> getitem (objs (store_of zero_units) 0) ''Defects'' = Inr (Int64 [0, 1])
   \<and> snd (generate_defect_rate_by_product (store_of zero_units) 0)
       = Inr [(''Product Type'', Object [Some ''X'', Some ''Y'']),
              (''Defect Rate (%)'', Float64 [NaN, PInf])]"
proof -
  have a: "getitem (objs (store_of zero_units) 0) ''Product Type''
             = Inr (Object [Some ''X'', Some ''Y''])"
    by (simp add: zero_units_def getitem_def store_of_def)
  have b: "getitem (objs (store_of zero_units) 0) ''Units Produced'' = Inr (Int64 [0, 0])"
    by (simp add: zero_units_def getitem_def store_of_def)
  have c: "getitem (objs (store_of zero_units) 0) ''Defects'' = Inr (Int64 [0, 1])"
    by (simp add: zero_units_def getitem_def store_of_def)
  have k: "group_keys [Some ''X'', Some ''Y''] = [''X'', ''Y'']"
    by (simp add: group_keys_def)
  from defect_rate_by_product_rates[OF a b c] a b c k show ?thesis
    by (simp add: group_rows_def)
qed

section \<open>Average defects by shift\<close>

lemma sum_list_of_int64:
  "sum_list (map of_int64 ws) = Fin (\<Sum>w\<leftarrow>ws. real_of_int (sint w))"
  by (induction ws) (simp_all add: zero_fval_def plus_fval_def of_int64_def del: of_int_sint)

lemma notna_of_int64: "notna (map of_int64 ws) = map of_int64 ws"
  by (induction ws) (simp_all add: notna_def of_int64_def)

lemma nanmean_of_int64:
  assumes "ws \<noteq> []"
  shows "nanmean (map of_int64 ws) = Fin ((\<Sum>w\<leftarrow>ws. real_of_int (sint w)) / real (length ws))"
  using assms by (simp add: nanmean_def notna_of_int64 sum_list_of_int64 del: of_int_sint)

lemma group_rows_map: "group_rows ks (map f vs) k = map f (group_rows ks vs k)"
proof -
  have "filter (\<lambda>r. fst r = Some k) (zip ks (map f vs))
        = map (\<lambda>r. (fst r, f (snd r))) (filter (\<lambda>r. fst r = Some k) (zip ks vs))"
    by (induction ks vs rule: list_induct2') auto
  then show ?thesis by (simp add: group_rows_def comp_def)
qed

lemma group_rows_nonempty:
  assumes "Some k \<in> set ks" and "length ks = length vs"
  shows "group_rows ks vs k \<noteq> []"
proof -
  obtain v where "(Some k, v) \<in> set (zip ks vs)"
    using in_set_impl_in_set_zip1[OF assms(2) assms(1)] by blast
  then have "(Some k, v) \<in> set (filter (\<lambda>r. fst r = Some k) (zip ks vs))" by simp
  then show ?thesis unfolding group_rows_def by (metis empty_iff list.map_disc_iff list.set(1))
qed

lemma map_of_group:
  assumes "Some k \<in> set ks"
  shows "map_of (zip (group_keys ks) (map f (group_keys ks))) k = Some (f k)"
  using assms by (simp add: map_of_zip_map set_group_keys)

lemma avg_defects_result:
  assumes "getitem (objs st df) ''Shift'' = Inr (Object ks)"
      and "getitem (objs st df) ''Defects'' = Inr dc"
      and "as_float dc = Inr fs"
  shows "snd (generate_avg_defects_by_shift st df)
     = Inr [(''Shift'', Object (map Some (group_keys ks))),
            (''Defects'', Float64 (map (\<lambda>k. nanmean (group_rows ks fs k)) (group_keys ks)))]"
  using assms
  by (simp add: generate_avg_defects_by_shift_def AvgDefectsByShift_def bindE_def
      as_labels_def groupby_mean_def)

text \<open>
  C5: for every table with a string column Shift and a numeric column Defects, and every
  shift \<open>s\<close> that occurs in it, the value that \<open>generate_avg_defects_by_shift\<close> pairs with \<open>s\<close>
  is the mean of the Defects values of exactly the rows whose Shift is \<open>s\<close>: the mean as
  pandas takes it (over the values that are not missing), which for an integer column is
  the sum of these values divided by their number.
\<close>

theorem avg_defects_by_shift_mean:
  assumes "getitem (objs st df) ''Shift'' = Inr (Object ks)"
      and "getitem (objs st df) ''Defects'' = Inr dc"
      and "as_float dc = Inr fs"
      and "Some s \<in> set ks"
  shows "\<exists>means.
           snd (generate_avg_defects_by_shift st df)
             = Inr [(''Shift'', Object (map Some (group_keys ks))), (''Defects'', Float64 means)]
         \<and> length means = length (group_keys ks)
         \<and> s \<in> set (group_keys ks)
         \<and> map_of (zip (group_keys ks) means) s
             = Some (nanmean (map snd (filter (\<lambda>r. fst r = Some s) (zip ks fs))))
         \<and> (\<forall>ws. dc = Int64 ws \<and> length ks = length ws \<longrightarrow>
               map_of (zip (group_keys ks) means) s
                 = Some (Fin ((\<Sum>d\<leftarrow>map snd (filter (\<lambda>r. fst r = Some s) (zip ks ws)).
                                 real_of_int (sint d))
                              / real (length (filter (\<lambda>r. fst r = Some s) (zip ks ws))))))"
proof -
  let ?means = "map (\<lambda>k. nanmean (group_rows ks fs k)) (group_keys ks)"
  have res: "snd (generate_avg_defects_by_shift st df)
      = Inr [(''Shift'', Object (map Some (group_keys ks))), (''Defects'', Float64 ?means)]"
    by (rule avg_defects_result[OF assms(1-3)])
  have look: "map_of (zip (group_keys ks) ?means) s = Some (nanmean (group_rows ks fs s))"
    by (rule map_of_group[OF assms(4)])
  have ints: "nanmean (group_rows ks fs s)
      = Fin ((\<Sum>d\<leftarrow>group_rows ks ws s. real_of_int (sint d)) / real (length (group_rows ks ws s)))"
    if "dc = Int64 ws" and "length ks = length ws" for ws
  proof -
    have "fs = map of_int64 ws" using assms(3) that(1) by (simp add: as_float_def)
    then have "group_rows ks fs s = map of_int64 (group_rows ks ws s)"
      by (simp add: group_rows_map)
    moreover have "group_rows ks ws s \<noteq> []"
      by (rule group_rows_nonempty[OF assms(4) that(2)])
    ultimately show ?thesis by (simp add: nanmean_of_int64 del: of_int_sint)
  qed
  have mem: "s \<in> set (group_keys ks)" using assms(4) by (simp add: set_group_keys)
  show ?thesis
    using res look ints mem
    by (intro exI[of _ ?means]) (simp add: group_rows_def del: of_int_sint)
qed

theorem avg_defects_by_shift_mean_witness:
  "getitem (objs (store_of shifts) 0) ''Shift''
     = Inr (Object [Some ''Night'', Some ''Day'', None, Some ''Night''])
   \<and> getitem (objs (store_of shifts) 0) ''Defects'' = Inr (Int64 [1, 4, 7, 2])
   \<and> as_float (Int64 [1, 4, 7, 2]) = Inr [Fin 1, Fin 4, Fin 7, Fin 2]
   \<and> Some ''Night'' \<in> set [Some ''Night'', Some ''Day'', None, Some ''Night'']
   \<and> (\<exists>means.
         snd (generate_avg_defects_by_shift (store_of shifts) 0)
           = Inr [(''Shift'', Object [Some ''Day'', Some ''Night'']), (''Defects'', Float64 means)]
       \<and> map_of (zip [''Day'', ''Night''] means) ''Night'' = Some (Fin (3 / 2)))"
proof -
  have a: "getitem (objs (store_of shifts) 0) ''Shift''
             = Inr (Object [Some ''Night'', Some ''Day'', None, Some ''Night''])"
    by (simp add: shifts_def getitem_def store_of_def)
  have b: "getitem (objs (store_of shifts) 0) ''Defects'' = Inr (Int64 [1, 4, 7, 2])"
    by (simp add: shifts_def getitem_def store_of_def)
  have c: "as_float (Int64 [1, 4, 7, 2]) = Inr [Fin 1, Fin 4, Fin 7, Fin 2]"
    by (simp add: as_float_def of_int64_def)
  have d: "Some ''Night'' \<in> set [Some ''Night'', Some ''Day'', None, Some ''Night'']"
    by simp
  have k: "group_keys [Some ''Night'', Some ''Day'', None, Some ''Night''] = [''Day'', ''Night'']"
    by (simp add: group_keys_def)
  from avg_defects_by_shift_mean[OF a b c d] a b c k show ?thesis
    by auto
qed

section \<open>Monthly production\<close>

subsection \<open>Month labels sort chronologically\<close>












lemma map_of_setitem: "map_of (setitem df c col) = (map_of df)(c \<mapsto> col)"
  by (induction df c col rule: setitem.induct) auto

lemma getitem_setitem_same: "getitem (setitem df c col) c = Inr col"
  by (simp add: getitem_def map_of_setitem)

lemma getitem_setitem_other: "c' \<noteq> c \<Longrightarrow> getitem (setitem df c col) c' = getitem df c'"
  by (simp add: getitem_def map_of_setitem)











lemma zero_pad_numeral:
  "zero_pad (numeral k) n = zero_pad (pred_numeral k) (n div 10) @ [digit n]"
proof -
  have "zero_pad (Suc (pred_numeral k)) n = zero_pad (pred_numeral k) (n div 10) @ [digit n]"
    by (rule zero_pad.simps(2))
  then show ?thesis by (simp only: numeral_eq_Suc[symmetric])
qed

lemmas label_defs =
  dt_to_period_M_str_def period_str_def month_label_def zero_pad_numeral digit_def char_of_def
  bit_Suc_0_iff Let_def


subsection \<open>Order and total of the monthly report\<close>




section \<open>Average cost summary\<close>


lemma in_columns_iff: "c \<in> fst ` set df \<longleftrightarrow> map_of df c \<noteq> None"
  by (simp add: map_of_eq_None_iff)

lemma getitem_absent: "c \<notin> set (columns t) \<Longrightarrow> getitem t c = Inl (KeyError [c])"
  by (simp add: getitem_def columns_def in_columns_iff)


lemma getitem_Inr_present: "getitem t c = Inr col \<Longrightarrow> c \<in> set (columns t)"
  by (auto simp: getitem_def columns_def in_columns_iff split: option.splits)

lemma getitem_cases:
  "getitem t c = Inl (KeyError [c]) \<and> c \<notin> set (columns t)
   \<or> (\<exists>col. getitem t c = Inr col \<and> c \<in> set (columns t))"
  by (cases "map_of t c") (auto simp: getitem_def columns_def in_columns_iff)










subsection \<open>The mean of a column, written out\<close>






subsection \<open>The cost summary\<close>




section \<open>Energy against production\<close>









section \<open>What the report functions do to the table they are given\<close>

lemma columns_setitem:
  "columns (setitem df c col) = (if c \<in> set (columns df) then columns df else columns df @ [c])"
  by (induction df c col rule: setitem.induct) (auto simp: columns_def)

lemma monthly_frame:
  "fst (MonthlyProduction v df) = df
   \<or> (\<exists>months. fst (MonthlyProduction v df) = setitem df ''Month'' months)"
  by (auto simp: MonthlyProduction_def Let_def split: sum.splits)

text \<open>
  C10, as stated: no report function changes a column that the table has. This fails on
  a table that has a column named Month: \<open>generate_monthly_production\<close> assigns to that
  name, so the values of the column are replaced (with either version of pandas).
\<close>

theorem input_table_unchanged_counterexample:
  "getitem (objs (store_of month_column) 0) ''Month'' = Inr (Object [Some ''March''])
   \<and> getitem (objs (fst (generate_monthly_production As_NaT (store_of month_column) 0)) 0)
         ''Month''
       = Inr (Object [Some ''2024-03''])
   \<and> getitem (objs (fst (generate_monthly_production Stays_missing (store_of month_column) 0)) 0)
         ''Month''
       = Inr (Object [Some ''2024-03''])
   \<and> Object [Some ''March''] \<noteq> Object [Some ''2024-03'']"
  by (simp add: generate_monthly_production_def MonthlyProduction_def month_column_def
      store_of_def getitem_def bindE_def label_defs)

text \<open>
  C10, amended: five of the report functions leave the store as it is.
  \<open>generate_monthly_production\<close> changes the table it is given and no other object: it
  leaves the table as it is or assigns the column Month, which appends that column when
  the table has none and replaces its values when it has one; every column of another
  name, and the order of the columns, stay. \<open>generate_productivity_per_operator\<close> writes to
  a fresh copy only: every object that exists at the call, the table it is given among
  them, stays as it is.
\<close>

theorem input_table_frame:
  "fst (generate_units_by_product st df) = st
   \<and> fst (generate_avg_defects_by_shift st df) = st
   \<and> fst (generate_avg_cost_summary st df) = st
   \<and> fst (generate_energy_vs_production qf st df) = st
   \<and> fst (generate_defect_rate_by_product st df) = st
   \<and> fresh (fst (generate_monthly_production v st df)) = fresh st
   \<and> (\<forall>r. r \<noteq> df \<longrightarrow> objs (fst (generate_monthly_production v st df)) r = objs st r)
   \<and> (\<forall>c. c \<noteq> ''Month'' \<longrightarrow>
          getitem (objs (fst (generate_monthly_production v st df)) df) c
            = getitem (objs st df) c)
   \<and> (columns (objs (fst (generate_monthly_production v st df)) df) = columns (objs st df)
        \<or> ''Month'' \<notin> set (columns (objs st df))
          \<and> columns (objs (fst (generate_monthly_production v st df)) df)
              = columns (objs st df) @ [''Month''])
   \<and> (\<forall>r. r \<noteq> fresh st \<longrightarrow>
          objs (fst (generate_productivity_per_operator st df)) r = objs st r)"
proof -
  have pure: "fst (generate_units_by_product st df) = st"
    "fst (generate_avg_defects_by_shift st df) = st"
    "fst (generate_avg_cost_summary st df) = st"
    "fst (generate_energy_vs_production qf st df) = st"
    "fst (generate_defect_rate_by_product st df) = st"
    by (simp_all add: generate_units_by_product_def generate_avg_defects_by_shift_def
        generate_avg_cost_summary_def generate_energy_vs_production_def
        generate_defect_rate_by_product_def)
  have m1: "fresh (fst (generate_monthly_production v st df)) = fresh st"
    by (simp add: generate_monthly_production_def Let_def)
  have m2: "\<forall>r. r \<noteq> df \<longrightarrow> objs (fst (generate_monthly_production v st df)) r = objs st r"
    by (simp add: generate_monthly_production_def Let_def)
  have at: "objs (fst (generate_monthly_production v st df)) df
              = fst (MonthlyProduction v (objs st df))"
    by (simp add: generate_monthly_production_def Let_def)
  have m3: "\<forall>c. c \<noteq> ''Month'' \<longrightarrow>
          getitem (objs (fst (generate_monthly_production v st df)) df) c
            = getitem (objs st df) c"
    unfolding at using monthly_frame[of v "objs st df"]
    by (auto simp: getitem_setitem_other)
  have m4: "columns (objs (fst (generate_monthly_production v st df)) df) = columns (objs st df)
        \<or> ''Month'' \<notin> set (columns (objs st df))
          \<and> columns (objs (fst (generate_monthly_production v st df)) df)
              = columns (objs st df) @ [''Month'']"
    unfolding at using monthly_frame[of v "objs st df"]
    by (auto simp: columns_setitem)
  have p: "\<forall>r. r \<noteq> fresh st \<longrightarrow>
          objs (fst (generate_productivity_per_operator st df)) r = objs st r"
    by (simp add: generate_productivity_per_operator_def Let_def)
  from pure m1 m2 m3 m4 p show ?thesis by blast
qed

theorem input_table_frame_witness:
  "getitem (objs (fst (generate_monthly_production As_NaT (store_of month_column) 0)) 0) ''Date''
     = getitem (objs (store_of month_column) 0) ''Date''
   \<and> objs (fst (generate_monthly_production As_NaT (store_of month_column) 0)) 1
       = objs (store_of month_column) 1
   \<and> columns (objs (fst (generate_monthly_production As_NaT (store_of month_column) 0)) 0)
       = [''Date'', ''Month'', ''Units Produced'']
   \<and> objs (fst (generate_productivity_per_operator (store_of month_column) 0)) 0 = month_column"
proof -
  have c: "columns (objs (store_of month_column) 0) = [''Date'', ''Month'', ''Units Produced'']"
    by (simp add: store_of_def month_column_def columns_def)
  have f: "fresh (store_of month_column) = 1" "objs (store_of month_column) 0 = month_column"
    by (simp_all add: store_of_def)
  from input_table_frame[of "store_of month_column" 0 _ As_NaT] c f show ?thesis
    by auto
qed

section \<open>The report pass\<close>

lemma bindS_Inr_iff:
  "snd (bindS m f) = Inr y \<longleftrightarrow> (\<exists>x. snd m = Inr x \<and> snd (f (fst m) x) = Inr y)"
  by (cases "snd m") (simp_all add: bindS_def)

text \<open>The pass hands out a workbook exactly when the date lookup and all seven functions succeed.\<close>

lemma main_success_iff:
  "snd (main pd st df) = Inr art \<longleftrightarrow>
     (\<exists>raw units defects monthly cost energy defect_rate productivity.
        getitem (objs st df) ''Date'' = Inr raw
      \<and> UnitsByProduct (after_date pd (objs st df) raw) = Inr units
      \<and> AvgDefectsByShift (after_date pd (objs st df) raw) = Inr defects
      \<and> snd (MonthlyProduction (astype_str pd) (after_date pd (objs st df) raw)) = Inr monthly
      \<and> AvgCostSummary (fst (MonthlyProduction (astype_str pd) (after_date pd (objs st df) raw)))
          = Inr cost
      \<and> EnergyVsProduction (corr_quotient pd)
            (fst (MonthlyProduction (astype_str pd) (after_date pd (objs st df) raw)))
          = Inr energy
      \<and> DefectRateByProduct
            (fst (MonthlyProduction (astype_str pd) (after_date pd (objs st df) raw)))
          = Inr defect_rate
      \<and> snd (ProductivityPerOperator
                (fst (MonthlyProduction (astype_str pd) (after_date pd (objs st df) raw))))
          = Inr productivity
      \<and> art = export_report units defects monthly cost energy defect_rate productivity)"
proof (cases "getitem (objs st df) ''Date''")
  case (Inl e)
  then show ?thesis by (simp add: main_def)
next
  case (Inr raw)
  show ?thesis
    unfolding main_def Inr
    by (simp add: Let_def bindS_Inr_iff generate_units_by_product_def
        generate_avg_defects_by_shift_def generate_monthly_production_def
        generate_avg_cost_summary_def generate_energy_vs_production_def
        generate_defect_rate_by_product_def generate_productivity_per_operator_def
        after_date_def) auto
qed

subsection \<open>A function fails when a column that it looks up is absent\<close>

lemma units_needs:
  assumes "c \<in> {''Product Type'', ''Units Produced''}" and "c \<notin> set (columns t)"
  shows "\<exists>a. UnitsByProduct t = Inl (KeyError [a]) \<and> a \<notin> set (columns t)"
  using assms getitem_cases[of t "''Product Type''"] getitem_cases[of t "''Units Produced''"]
  by (auto simp: UnitsByProduct_def bindE_def)

lemma defects_needs:
  assumes "c \<in> {''Shift'', ''Defects''}" and "c \<notin> set (columns t)"
  shows "\<exists>a. AvgDefectsByShift t = Inl (KeyError [a]) \<and> a \<notin> set (columns t)"
  using assms getitem_cases[of t "''Shift''"] getitem_cases[of t "''Defects''"]
  by (auto simp: AvgDefectsByShift_def bindE_def)

lemma monthly_needs:
  assumes "c \<in> {''Date'', ''Units Produced''}" and "c \<notin> set (columns t)"
  shows "\<exists>e. snd (MonthlyProduction v t) = Inl e"
  using assms getitem_cases[of t "''Date''"] getitem_cases[of t "''Units Produced''"]
  by (auto simp: MonthlyProduction_def bindE_def Let_def getitem_setitem_other
      getitem_setitem_same split: sum.splits)

lemma monthly_needs_date:
  assumes "''Date'' \<notin> set (columns t)"
  shows "snd (MonthlyProduction v t) = Inl (KeyError [''Date''])"
  using getitem_absent[OF assms] by (simp add: MonthlyProduction_def bindE_def)

lemma energy_needs:
  assumes "c \<in> {''Energy Consumption kWh'', ''Units Produced''}" and "c \<notin> set (columns t)"
  shows "\<exists>cs. EnergyVsProduction qf t = Inl (KeyError cs) \<and> c \<in> set cs
              \<and> set cs \<inter> set (columns t) = {}"
  using assms
  by (auto simp: EnergyVsProduction_def getitems_def bindE_def columns_def in_columns_iff Let_def)

lemma rate_needs:
  assumes "c \<in> {''Product Type'', ''Units Produced'', ''Defects''}" and "c \<notin> set (columns t)"
  shows "\<exists>e. DefectRateByProduct t = Inl e"
  using assms getitem_cases[of t "''Product Type''"] getitem_cases[of t "''Units Produced''"]
    getitem_cases[of t "''Defects''"]
  by (auto simp: DefectRateByProduct_def bindE_def split: sum.splits)

lemma rate_needs_product:
  assumes "''Product Type'' \<notin> set (columns t)"
  shows "DefectRateByProduct t = Inl (KeyError [''Product Type''])"
  using getitem_absent[OF assms] by (simp add: DefectRateByProduct_def bindE_def)

lemma productivity_needs:
  assumes "c \<in> {''Units Produced'', ''Operator Count'', ''Production Time Hours'',
                 ''Product Type'', ''Shift''}"
      and "c \<notin> set (columns t)"
  shows "\<exists>e. snd (ProductivityPerOperator t) = Inl e"
proof (cases "productivity_column t")
  case (Inl e)
  then show ?thesis by (simp add: ProductivityPerOperator_def)
next
  case (Inr p)
  then have three: "''Units Produced'' \<in> set (columns t)" "''Operator Count'' \<in> set (columns t)"
    "''Production Time Hours'' \<in> set (columns t)"
    using getitem_cases[of t "''Units Produced''"] getitem_cases[of t "''Operator Count''"]
      getitem_cases[of t "''Production Time Hours''"]
    by (auto simp: productivity_column_def bindE_def)
  then have c: "c \<in> {''Product Type'', ''Shift''}" using assms by auto
  have "map_of (setitem t ''Productivity'' p) c = None"
    using c assms(2) by (auto simp: map_of_setitem columns_def in_columns_iff)
  then have "\<exists>cs. getitems (setitem t ''Productivity'' p)
                  [''Product Type'', ''Shift'', ''Productivity''] = Inl (KeyError cs)"
    using c by (auto simp: getitems_def Let_def)
  then show ?thesis
    using Inr by (auto simp: ProductivityPerOperator_def Let_def bindE_def)
qed

lemma productivity_needs_units:
  assumes "''Units Produced'' \<notin> set (columns t)"
  shows "snd (ProductivityPerOperator t) = Inl (KeyError [''Units Produced''])"
  using getitem_absent[OF assms]
  by (simp add: ProductivityPerOperator_def productivity_column_def bindE_def)

subsection \<open>The pass fails with the first function that fails\<close>

lemma columns_after_date:
  assumes "getitem t ''Date'' = Inr raw"
  shows "columns (after_date pd t raw) = columns t"
  using getitem_Inr_present[OF assms] by (simp add: after_date_def columns_setitem)

lemma columns_after_monthly:
  "set (columns (fst (MonthlyProduction v t))) \<subseteq> insert ''Month'' (set (columns t))"
  using monthly_frame[of v t] by (auto simp: columns_setitem split: if_splits)

lemma main_needs:
  assumes "c \<in> set required_columns" and "c \<notin> set (columns (objs st df))"
  shows "\<exists>e. snd (main pd st df) = Inl e"
proof (rule ccontr)
  assume "\<not> (\<exists>e. snd (main pd st df) = Inl e)"
  then obtain art where "snd (main pd st df) = Inr art"
    by (cases "snd (main pd st df)") auto
  then have "\<exists>raw units defects monthly cost energy defect_rate productivity.
        getitem (objs st df) ''Date'' = Inr raw
      \<and> UnitsByProduct (after_date pd (objs st df) raw) = Inr units
      \<and> AvgDefectsByShift (after_date pd (objs st df) raw) = Inr defects
      \<and> snd (MonthlyProduction (astype_str pd) (after_date pd (objs st df) raw)) = Inr monthly
      \<and> AvgCostSummary (fst (MonthlyProduction (astype_str pd) (after_date pd (objs st df) raw)))
          = Inr cost
      \<and> EnergyVsProduction (corr_quotient pd)
            (fst (MonthlyProduction (astype_str pd) (after_date pd (objs st df) raw)))
          = Inr energy
      \<and> DefectRateByProduct
            (fst (MonthlyProduction (astype_str pd) (after_date pd (objs st df) raw)))
          = Inr defect_rate
      \<and> snd (ProductivityPerOperator
                (fst (MonthlyProduction (astype_str pd) (after_date pd (objs st df) raw))))
          = Inr productivity
      \<and> art = export_report units defects monthly cost energy defect_rate productivity"
    by (simp only: main_success_iff)
  then obtain raw units defects energy productivity where
    date: "getitem (objs st df) ''Date'' = Inr raw"
    and u: "UnitsByProduct (after_date pd (objs st df) raw) = Inr units"
    and d: "AvgDefectsByShift (after_date pd (objs st df) raw) = Inr defects"
    and e: "EnergyVsProduction (corr_quotient pd)
              (fst (MonthlyProduction (astype_str pd) (after_date pd (objs st df) raw)))
              = Inr energy"
    and p: "snd (ProductivityPerOperator
                  (fst (MonthlyProduction (astype_str pd) (after_date pd (objs st df) raw))))
              = Inr productivity"
    by (elim exE conjE)
  let ?d0 = "after_date pd (objs st df) raw"
  let ?d1 = "fst (MonthlyProduction (astype_str pd) ?d0)"
  have c0: "c \<notin> set (columns ?d0)"
    using assms(2) by (simp add: columns_after_date[OF date])
  have mem: "c = ''Date'' \<or> c = ''Product Type'' \<or> c = ''Shift'' \<or> c = ''Units Produced''
      \<or> c = ''Defects'' \<or> c = ''Operator Count'' \<or> c = ''Production Time Hours''
      \<or> c = ''Energy Consumption kWh''"
    using assms(1) by (simp add: required_columns_def)
  have n0: "c \<noteq> ''Date''" using getitem_Inr_present[OF date] assms(2) by blast
  have un: "c \<notin> {''Product Type'', ''Units Produced''}"
  proof
    assume "c \<in> {''Product Type'', ''Units Produced''}"
    from units_needs[OF this c0] u show False by auto
  qed
  have dn: "c \<notin> {''Shift'', ''Defects''}"
  proof
    assume "c \<in> {''Shift'', ''Defects''}"
    from defects_needs[OF this c0] d show False by auto
  qed
  have "c \<noteq> ''Month''"
  proof
    assume "c = ''Month''"
    with mem show False by simp
  qed
  then have c1: "c \<notin> set (columns ?d1)"
    using c0 columns_after_monthly[of "astype_str pd" ?d0] by blast
  have pn: "c \<notin> {''Units Produced'', ''Operator Count'', ''Production Time Hours'',
                 ''Product Type'', ''Shift''}"
  proof
    assume "c \<in> {''Units Produced'', ''Operator Count'', ''Production Time Hours'',
                 ''Product Type'', ''Shift''}"
    from productivity_needs[OF this c1] p show False by auto
  qed
  have en: "c \<notin> {''Energy Consumption kWh'', ''Units Produced''}"
  proof
    assume "c \<in> {''Energy Consumption kWh'', ''Units Produced''}"
    from energy_needs[OF this c1, of "corr_quotient pd"] e show False by auto
  qed
  have "c \<noteq> ''Product Type''" "c \<noteq> ''Units Produced''" using un by simp_all
  moreover have "c \<noteq> ''Shift''" "c \<noteq> ''Defects''" using dn by simp_all
  moreover have "c \<noteq> ''Operator Count''" "c \<noteq> ''Production Time Hours''"
    using pn by simp_all
  moreover have "c \<noteq> ''Energy Consumption kWh''" using en by simp
  ultimately show False using mem n0 by simp
qed

lemma main_needs_date:
  assumes "''Date'' \<notin> set (columns (objs st df))"
  shows "snd (main pd st df) = Inl (KeyError [''Date''])"
  using getitem_absent[OF assms] by (simp add: main_def)

text \<open>
  C4, as stated: a function whose column is absent signals an error that names the column
  and the function, and the pass still returns the results of the other six. The program
  has no exception handler: on the table without the column Shift the shift report raises
  \<open>KeyError\<close>, which names the column only, and the pass ends there with that exception and
  without any result, although the units report, taken alone, has a result.
\<close>

theorem report_pass_isolation_counterexample:
  "snd (generate_avg_defects_by_shift (store_of no_shift) 0) = Inl (KeyError [''Shift''])
   \<and> snd (generate_units_by_product (store_of no_shift) 0)
       = Inr [(''Product Type'', Object [Some ''A'', Some ''B'']),
              (''Units Produced'', Int64 [10, 20])]
   \<and> snd (main pandas2 (store_of no_shift) 0) = Inl (KeyError [''Shift''])
   \<and> snd (main pandas3 (store_of no_shift) 0) = Inl (KeyError [''Shift''])"
  by (simp add: main_def no_shift_def full_table_def store_of_def getitem_def keep_dates_def
      pandas2_def pandas3_def bindS_def generate_units_by_product_def UnitsByProduct_def
      bindE_def as_labels_def groupby_sum_def group_keys_def group_rows_def
      generate_avg_defects_by_shift_def AvgDefectsByShift_def Let_def)

text \<open>
  C4, amended: when a required column is absent from the table, every report function
  that looks it up raises an exception and the report pass raises one as well: it stops
  at the first function that fails and returns no result at all. Where the absent column
  is the first one that the function reaches, the exception is a \<open>KeyError\<close> that names the
  absent column (and not the function): so for both columns of the units report, of the
  shift report and of the energy report, for Date in the monthly report and in the pass,
  for Product Type in the defect rate report and for Units Produced in the productivity
  report.
\<close>

theorem missing_column_aborts_pass:
  assumes "c \<in> set required_columns" and "c \<notin> set (columns (objs st df))"
  shows "(\<exists>e. snd (main pd st df) = Inl e)
       \<and> (c = ''Date'' \<longrightarrow> snd (main pd st df) = Inl (KeyError [''Date''])
                         \<and> snd (generate_monthly_production v st df) = Inl (KeyError [''Date'']))
       \<and> (c \<in> {''Product Type'', ''Units Produced''} \<longrightarrow>
            (\<exists>a. snd (generate_units_by_product st df) = Inl (KeyError [a])
                 \<and> a \<notin> set (columns (objs st df))))
       \<and> (c \<in> {''Shift'', ''Defects''} \<longrightarrow>
            (\<exists>a. snd (generate_avg_defects_by_shift st df) = Inl (KeyError [a])
                 \<and> a \<notin> set (columns (objs st df))))
       \<and> (c \<in> {''Date'', ''Units Produced''} \<longrightarrow>
            (\<exists>e. snd (generate_monthly_production v st df) = Inl e))
       \<and> (c \<in> {''Energy Consumption kWh'', ''Units Produced''} \<longrightarrow>
            (\<exists>cs. snd (generate_energy_vs_production qf st df) = Inl (KeyError cs)
                  \<and> c \<in> set cs \<and> set cs \<inter> set (columns (objs st df)) = {}))
       \<and> (c \<in> {''Product Type'', ''Units Produced'', ''Defects''} \<longrightarrow>
            (\<exists>e. snd (generate_defect_rate_by_product st df) = Inl e))
       \<and> (c = ''Product Type'' \<longrightarrow>
            snd (generate_defect_rate_by_product st df) = Inl (KeyError [''Product Type'']))
       \<and> (c \<in> {''Units Produced'', ''Operator Count'', ''Production Time Hours'',
                 ''Product Type'', ''Shift''} \<longrightarrow>
            (\<exists>e. snd (generate_productivity_per_operator st df) = Inl e))
       \<and> (c = ''Units Produced'' \<longrightarrow>
            snd (generate_productivity_per_operator st df) = Inl (KeyError [''Units Produced'']))"
proof (intro conjI impI)
  let ?t = "objs st df"
  show "\<exists>e. snd (main pd st df) = Inl e" by (rule main_needs[OF assms])
  show "snd (main pd st df) = Inl (KeyError [''Date''])" if "c = ''Date''"
    using that assms(2) by (simp add: main_needs_date)
  show "snd (generate_monthly_production v st df) = Inl (KeyError [''Date''])" if "c = ''Date''"
    using that assms(2) monthly_needs_date[of ?t v]
    by (simp add: generate_monthly_production_def Let_def)
  show "\<exists>a. snd (generate_units_by_product st df) = Inl (KeyError [a]) \<and> a \<notin> set (columns ?t)"
    if "c \<in> {''Product Type'', ''Units Produced''}"
    using units_needs[OF that assms(2)] by (simp add: generate_units_by_product_def)
  show "\<exists>a. snd (generate_avg_defects_by_shift st df) = Inl (KeyError [a])
            \<and> a \<notin> set (columns ?t)"
    if "c \<in> {''Shift'', ''Defects''}"
    using defects_needs[OF that assms(2)] by (simp add: generate_avg_defects_by_shift_def)
  show "\<exists>e. snd (generate_monthly_production v st df) = Inl e"
    if "c \<in> {''Date'', ''Units Produced''}"
    using monthly_needs[OF that assms(2), of v]
    by (simp add: generate_monthly_production_def Let_def)
  show "\<exists>cs. snd (generate_energy_vs_production qf st df) = Inl (KeyError cs)
             \<and> c \<in> set cs \<and> set cs \<inter> set (columns ?t) = {}"
    if "c \<in> {''Energy Consumption kWh'', ''Units Produced''}"
    using energy_needs[OF that assms(2), of qf] by (simp add: generate_energy_vs_production_def)
  show "\<exists>e. snd (generate_defect_rate_by_product st df) = Inl e"
    if "c \<in> {''Product Type'', ''Units Produced'', ''Defects''}"
    using rate_needs[OF that assms(2)] by (simp add: generate_defect_rate_by_product_def)
  show "snd (generate_defect_rate_by_product st df) = Inl (KeyError [''Product Type''])"
    if "c = ''Product Type''"
    using that assms(2) rate_needs_product[of ?t]
    by (simp add: generate_defect_rate_by_product_def)
  show "\<exists>e. snd (generate_productivity_per_operator st df) = Inl e"
    if "c \<in> {''Units Produced'', ''Operator Count'', ''Production Time Hours'',
               ''Product Type'', ''Shift''}"
    using productivity_needs[OF that assms(2)]
    by (simp add: generate_productivity_per_operator_def Let_def)
  show "snd (generate_productivity_per_operator st df) = Inl (KeyError [''Units Produced''])"
    if "c = ''Units Produced''"
    using that assms(2) productivity_needs_units[of ?t]
    by (simp add: generate_productivity_per_operator_def Let_def)
qed

theorem missing_column_aborts_pass_witness:
  "''Shift'' \<in> set required_columns
   \<and> ''Shift'' \<notin> set (columns (objs (store_of no_shift) 0))
   \<and> (\<exists>e. snd (main pandas3 (store_of no_shift) 0) = Inl e)
   \<and> (\<exists>a. snd (generate_avg_defects_by_shift (store_of no_shift) 0) = Inl (KeyError [a])
           \<and> a \<notin> set (columns (objs (store_of no_shift) 0)))
   \<and> (\<exists>e. snd (generate_productivity_per_operator (store_of no_shift) 0) = Inl e)"
proof -
  have a: "''Shift'' \<in> set required_columns"
    by (simp add: required_columns_def)
  have b: "''Shift'' \<notin> set (columns (objs (store_of no_shift) 0))"
    by (simp add: no_shift_def full_table_def store_of_def columns_def)
  from missing_column_aborts_pass[OF a b, of pandas3] a b show ?thesis
    by simp
qed

section \<open>The export\<close>

lemma full_table_after_date: "after_date pandas3 full_table (Datetime64 [Some (Timestamp 2024 1 5), None]) = full_table"
  by (simp add: after_date_def pandas3_def keep_dates_def full_table_def)

lemma full_table_after_monthly: "fst (MonthlyProduction Stays_missing full_table)
   = full_table @ [(''Month'', Object [Some ''2024-01'', None])]"
  by (simp add: MonthlyProduction_def full_table_def getitem_def bindE_def label_defs)

lemma full_table_pass: "\<exists>art. snd (main pandas3 (store_of full_table) 0) = Inr art"
proof -
  have date: "getitem (objs (store_of full_table) 0) ''Date''
                = Inr (Datetime64 [Some (Timestamp 2024 1 5), None])"
    by (simp add: store_of_def full_table_def getitem_def)
  have o: "objs (store_of full_table) 0 = full_table" by (simp add: store_of_def)
  have u: "\<exists>r. UnitsByProduct full_table = Inr r"
    by (simp add: UnitsByProduct_def full_table_def getitem_def bindE_def as_labels_def
        groupby_sum_def)
  have d: "\<exists>r. AvgDefectsByShift full_table = Inr r"
    by (simp add: AvgDefectsByShift_def full_table_def getitem_def bindE_def as_labels_def
        groupby_mean_def as_float_def)
  have m: "\<exists>r. snd (MonthlyProduction Stays_missing full_table) = Inr r"
    by (simp add: MonthlyProduction_def full_table_def getitem_def bindE_def as_labels_def
        groupby_sum_def dt_to_period_M_str_def Let_def)
  have c: "\<exists>r. AvgCostSummary (full_table @ [(''Month'', Object [Some ''2024-01'', None])]) = Inr r"
    by (simp add: AvgCostSummary_def full_table_def getitems_def columns_def bindE_def)
  have e: "\<exists>r. EnergyVsProduction exact_quotient
                 (full_table @ [(''Month'', Object [Some ''2024-01'', None])]) = Inr r"
    by (simp add: EnergyVsProduction_def full_table_def getitems_def columns_def bindE_def
        corr_def as_float_def)
  have r: "\<exists>r. DefectRateByProduct (full_table @ [(''Month'', Object [Some ''2024-01'', None])])
                = Inr r"
    by (simp add: DefectRateByProduct_def full_table_def getitem_def bindE_def as_labels_def
        groupby_sum_def col_div_def col_scale_def as_float_def)
  have p: "\<exists>r. snd (ProductivityPerOperator
                  (full_table @ [(''Month'', Object [Some ''2024-01'', None])])) = Inr r"
    by (simp add: ProductivityPerOperator_def productivity_column_def full_table_def getitem_def
        getitems_def bindE_def as_labels_def col_mul_def col_div_def as_float_def
        groupby_mean_def Let_def)
  have q: "astype_str pandas3 = Stays_missing" "corr_quotient pandas3 = exact_quotient"
    by (simp_all add: pandas3_def)
  from u d m c e r p obtain ru rd rm rc re rr rp where
    f: "UnitsByProduct full_table = Inr ru" "AvgDefectsByShift full_table = Inr rd"
      "snd (MonthlyProduction Stays_missing full_table) = Inr rm"
      "AvgCostSummary (full_table @ [(''Month'', Object [Some ''2024-01'', None])]) = Inr rc"
      "EnergyVsProduction exact_quotient
         (full_table @ [(''Month'', Object [Some ''2024-01'', None])]) = Inr re"
      "DefectRateByProduct (full_table @ [(''Month'', Object [Some ''2024-01'', None])]) = Inr rr"
      "snd (ProductivityPerOperator
             (full_table @ [(''Month'', Object [Some ''2024-01'', None])])) = Inr rp"
    by (elim exE)
  have "snd (main pandas3 (store_of full_table) 0) = Inr (export_report ru rd rm rc re rr rp)"
    apply (simp only: main_success_iff o q)
    apply (rule exI[of _ "Datetime64 [Some (Timestamp 2024 1 5), None]"])
    apply (rule exI[of _ ru], rule exI[of _ rd], rule exI[of _ rm], rule exI[of _ rc])
    apply (rule exI[of _ re], rule exI[of _ rr], rule exI[of _ rp])
    apply (simp only: full_table_after_date full_table_after_monthly f)
    using date by (simp add: o)
  then show ?thesis by blast
qed

text \<open>
  C8: whenever the program exports, the workbook that it hands to the download button has
  exactly seven sheets, named Units by Product, Defects by Shift, Monthly Production, Cost
  Summary, Energy vs Prod, Defect Rate (%) and Productivity, in this order; each sheet is
  the table that the report function of that name returned in the pass; the MIME type and
  the file name are the two fixed strings.
\<close>

theorem export_has_seven_sheets:
  assumes "snd (main pd st df) = Inr art"
  shows "map fst (sheets art)
           = [''Units by Product'', ''Defects by Shift'', ''Monthly Production'', ''Cost Summary'',
              ''Energy vs Prod'', ''Defect Rate (%)'', ''Productivity'']
       \<and> length (sheets art) = 7
       \<and> file_name art = ''agentic_report.xlsx''
       \<and> mime art = ''application/vnd.openxmlformats-officedocument.spreadsheetml.sheet''
       \<and> (\<exists>raw units defects monthly cost energy defect_rate productivity.
             getitem (objs st df) ''Date'' = Inr raw
           \<and> UnitsByProduct (after_date pd (objs st df) raw) = Inr units
           \<and> AvgDefectsByShift (after_date pd (objs st df) raw) = Inr defects
           \<and> snd (MonthlyProduction (astype_str pd) (after_date pd (objs st df) raw))
               = Inr monthly
           \<and> AvgCostSummary
                 (fst (MonthlyProduction (astype_str pd) (after_date pd (objs st df) raw)))
               = Inr cost
           \<and> EnergyVsProduction (corr_quotient pd)
                 (fst (MonthlyProduction (astype_str pd) (after_date pd (objs st df) raw)))
               = Inr energy
           \<and> DefectRateByProduct
                 (fst (MonthlyProduction (astype_str pd) (after_date pd (objs st df) raw)))
               = Inr defect_rate
           \<and> snd (ProductivityPerOperator
                     (fst (MonthlyProduction (astype_str pd) (after_date pd (objs st df) raw))))
               = Inr productivity
           \<and> sheets art
               = [(''Units by Product'', units), (''Defects by Shift'', defects),
                  (''Monthly Production'', monthly), (''Cost Summary'', cost),
                  (''Energy vs Prod'', energy), (''Defect Rate (%)'', defect_rate),
                  (''Productivity'', productivity)])"
proof -
  from assms obtain raw units defects monthly cost energy defect_rate productivity where
    ok: "getitem (objs st df) ''Date'' = Inr raw"
      "UnitsByProduct (after_date pd (objs st df) raw) = Inr units"
      "AvgDefectsByShift (after_date pd (objs st df) raw) = Inr defects"
      "snd (MonthlyProduction (astype_str pd) (after_date pd (objs st df) raw)) = Inr monthly"
      "AvgCostSummary (fst (MonthlyProduction (astype_str pd) (after_date pd (objs st df) raw)))
         = Inr cost"
      "EnergyVsProduction (corr_quotient pd)
         (fst (MonthlyProduction (astype_str pd) (after_date pd (objs st df) raw)))
         = Inr energy"
      "DefectRateByProduct
         (fst (MonthlyProduction (astype_str pd) (after_date pd (objs st df) raw)))
         = Inr defect_rate"
      "snd (ProductivityPerOperator
              (fst (MonthlyProduction (astype_str pd) (after_date pd (objs st df) raw))))
         = Inr productivity"
    and art: "art = export_report units defects monthly cost energy defect_rate productivity"
    unfolding main_success_iff by (elim exE conjE)
  have s: "sheets art
               = [(''Units by Product'', units), (''Defects by Shift'', defects),
                  (''Monthly Production'', monthly), (''Cost Summary'', cost),
                  (''Energy vs Prod'', energy), (''Defect Rate (%)'', defect_rate),
                  (''Productivity'', productivity)]"
    by (simp add: art export_report_def to_excel_def Let_def)
  have n: "map fst (sheets art)
           = [''Units by Product'', ''Defects by Shift'', ''Monthly Production'', ''Cost Summary'',
              ''Energy vs Prod'', ''Defect Rate (%)'', ''Productivity'']"
    by (simp only: s list.map fst_conv)
  have l: "length (sheets art) = 7" by (simp only: s) simp
  have f: "file_name art = ''agentic_report.xlsx''"
    by (simp add: art export_report_def Let_def)
  have m: "mime art = ''application/vnd.openxmlformats-officedocument.spreadsheetml.sheet''"
    by (simp add: art export_report_def Let_def)
  have "\<exists>raw units defects monthly cost energy defect_rate productivity.
             getitem (objs st df) ''Date'' = Inr raw
           \<and> UnitsByProduct (after_date pd (objs st df) raw) = Inr units
           \<and> AvgDefectsByShift (after_date pd (objs st df) raw) = Inr defects
           \<and> snd (MonthlyProduction (astype_str pd) (after_date pd (objs st df) raw))
               = Inr monthly
           \<and> AvgCostSummary
                 (fst (MonthlyProduction (astype_str pd) (after_date pd (objs st df) raw)))
               = Inr cost
           \<and> EnergyVsProduction (corr_quotient pd)
                 (fst (MonthlyProduction (astype_str pd) (after_date pd (objs st df) raw)))
               = Inr energy
           \<and> DefectRateByProduct
                 (fst (MonthlyProduction (astype_str pd) (after_date pd (objs st df) raw)))
               = Inr defect_rate
           \<and> snd (ProductivityPerOperator
                     (fst (MonthlyProduction (astype_str pd) (after_date pd (objs st df) raw))))
               = Inr productivity
           \<and> sheets art
               = [(''Units by Product'', units), (''Defects by Shift'', defects),
                  (''Monthly Production'', monthly), (''Cost Summary'', cost),
                  (''Energy vs Prod'', energy), (''Defect Rate (%)'', defect_rate),
                  (''Productivity'', productivity)]"
    apply (rule exI[of _ raw], rule exI[of _ units], rule exI[of _ defects])
    apply (rule exI[of _ monthly], rule exI[of _ cost], rule exI[of _ energy])
    apply (rule exI[of _ defect_rate], rule exI[of _ productivity])
    using ok s by (intro conjI)
  with n l f m show ?thesis by (intro conjI)
qed

theorem export_has_seven_sheets_witness:
  "\<exists>art. snd (main pandas3 (store_of full_table) 0) = Inr art
       \<and> map fst (sheets art)
           = [''Units by Product'', ''Defects by Shift'', ''Monthly Production'', ''Cost Summary'',
              ''Energy vs Prod'', ''Defect Rate (%)'', ''Productivity'']
       \<and> length (sheets art) = 7
       \<and> file_name art = ''agentic_report.xlsx''
       \<and> mime art = ''application/vnd.openxmlformats-officedocument.spreadsheetml.sheet''"
proof -
  from full_table_pass obtain art where a: "snd (main pandas3 (store_of full_table) 0) = Inr art"
    by (elim exE)
  from export_has_seven_sheets[OF a] a show ?thesis
    by (intro exI[of _ art] conjI) (elim conjE, assumption)+
qed

end
